theory Spec2Isabelle
  imports Main "HOL-Library.Monad_Syntax"
begin

section \<open>The ROM library client: \<^verbatim>\<open>frontend/src/services/api.js\<close>\<close>

text \<open>
  The module exports seven \<^verbatim>\<open>async\<close> functions. Each one builds a URL with a template
  literal and hands it to the shared \<^verbatim>\<open>axios\<close> instance. The embedding makes explicit what
  JavaScript leaves implicit: the string coercion inside template literals, the
  \<^verbatim>\<open>TypeError\<close> of reading a property of \<^verbatim>\<open>undefined\<close> or \<^verbatim>\<open>null\<close>, default parameters,
  truthiness, the outcome of the promise each function returns, the requests handed to
  axios and the browser save actions.
\<close>

subsection \<open>JavaScript values\<close>

text \<open>
  The values the module is handed. \<open>JNum n\<close> is the integer-valued Number \<open>n\<close> (the model
  covers the safe integers, of magnitude at most \<open>2^53 - 1\<close>, which print in plain decimal:
  rom ids and page sizes); fractional and infinite Numbers are outside the model. Strings are
  byte strings. An object is the list of its own data properties; a Blob is its bytes.
\<close>

datatype jsval =
    JUndefined
  | JNull
  | JBool bool
  | JNum int
  | JNaN
  | JStr string
  | JArr "jsval list"
  | JObj "(string \<times> jsval) list"
  | JBlob string

text \<open>What a rejected promise carries: the \<^verbatim>\<open>TypeError\<close> raised by the language itself, or
  any value thrown or rejected with by a library.\<close>

datatype exn = TypeError | Thrown jsval

text \<open>The state of a promise once the event loop has run dry.\<close>

datatype promise = Pending | Fulfilled jsval | Rejected exn

subsection \<open>Coercions\<close>

definition digit_char :: "nat \<Rightarrow> char" where
  "digit_char d = ''0123456789'' ! d"

fun string_of_nat :: "nat \<Rightarrow> string" where
  "string_of_nat n =
     (if n < 10 then [digit_char n] else string_of_nat (n div 10) @ [digit_char (n mod 10)])"

declare string_of_nat.simps [simp del]

definition number_to_string :: "int \<Rightarrow> string" where
  "number_to_string n =
     (if n < 0 then ''-'' @ string_of_nat (nat (- n)) else string_of_nat (nat n))"

text \<open>\<^verbatim>\<open>Array.prototype.join\<close>: the pieces with the separator between them.\<close>

fun join :: "string \<Rightarrow> string list \<Rightarrow> string" where
  "join sep [] = []"
| "join sep [s] = s"
| "join sep (s # t # ss) = s @ sep @ join sep (t # ss)"

text \<open>
  \<^verbatim>\<open>ToString\<close>, which a template literal applies to each substitution. An array prints as
  \<^verbatim>\<open>join(",")\<close> of its elements, where \<^verbatim>\<open>undefined\<close> and \<^verbatim>\<open>null\<close> elements print as the empty
  string; a data object prints as \<^verbatim>\<open>[object Object]\<close>.
\<close>

fun to_string :: "jsval \<Rightarrow> string" where
  "to_string JUndefined = ''undefined''"
| "to_string JNull = ''null''"
| "to_string (JBool b) = (if b then ''true'' else ''false'')"
| "to_string (JNum n) = number_to_string n"
| "to_string JNaN = ''NaN''"
| "to_string (JStr s) = s"
| "to_string (JArr xs) =
     join '','' (map (\<lambda>x. case x of JUndefined \<Rightarrow> [] | JNull \<Rightarrow> [] | _ \<Rightarrow> to_string x) xs)"
| "to_string (JObj ps) = ''[object Object]''"
| "to_string (JBlob bs) = ''[object Blob]''"

text \<open>\<^verbatim>\<open>ToBoolean\<close>: the falsy values are \<^verbatim>\<open>undefined\<close>, \<^verbatim>\<open>null\<close>, \<^verbatim>\<open>false\<close>, \<^verbatim>\<open>0\<close>,
  \<^verbatim>\<open>NaN\<close> and the empty string; every array and object is truthy.\<close>

fun truthy :: "jsval \<Rightarrow> bool" where
  "truthy JUndefined = False"
| "truthy JNull = False"
| "truthy (JBool b) = b"
| "truthy (JNum n) = (n \<noteq> 0)"
| "truthy JNaN = False"
| "truthy (JStr s) = (s \<noteq> [])"
| "truthy (JArr xs) = True"
| "truthy (JObj ps) = True"
| "truthy (JBlob bs) = True"

text \<open>An own property of an object, \<^verbatim>\<open>undefined\<close> when it has none of that name.\<close>

definition own_prop :: "(string \<times> jsval) list \<Rightarrow> string \<Rightarrow> jsval" where
  "own_prop ps k = (case map_of ps k of None \<Rightarrow> JUndefined | Some v \<Rightarrow> v)"

text \<open>
  Property access \<^verbatim>\<open>v.k\<close> for the names this module reads (\<^verbatim>\<open>platform\<close>, \<^verbatim>\<open>cursor\<close>,
  \<^verbatim>\<open>size\<close>, \<^verbatim>\<open>searchTerm\<close>, \<^verbatim>\<open>p_slug\<close>, \<^verbatim>\<open>id\<close>, \<^verbatim>\<open>files\<close>, \<^verbatim>\<open>r_name\<close>, \<^verbatim>\<open>data\<close>):
  \<open>None\<close> is the \<^verbatim>\<open>TypeError\<close> thrown on \<^verbatim>\<open>undefined\<close> and \<^verbatim>\<open>null\<close>. Of these names the
  built-in prototypes define only \<^verbatim>\<open>size\<close>, on a Blob; primitives and arrays have none.
\<close>

fun get_prop :: "jsval \<Rightarrow> string \<Rightarrow> jsval option" where
  "get_prop JUndefined k = None"
| "get_prop JNull k = None"
| "get_prop (JObj ps) k = Some (own_prop ps k)"
| "get_prop (JBlob bs) k = Some (if k = ''size'' then JNum (int (length bs)) else JUndefined)"
| "get_prop v k = Some JUndefined"

text \<open>A default parameter \<^verbatim>\<open>x = d\<close> takes the default exactly when the value is
  \<^verbatim>\<open>undefined\<close>.\<close>

definition default_to :: "jsval \<Rightarrow> jsval \<Rightarrow> jsval" where
  "default_to d v = (case v of JUndefined \<Rightarrow> d | _ \<Rightarrow> v)"

text \<open>\<^verbatim>\<open>new Blob(parts)\<close>: a Blob part contributes its bytes, any other part its string.\<close>

definition blob_part :: "jsval \<Rightarrow> string" where
  "blob_part v = (case v of JBlob bs \<Rightarrow> bs | _ \<Rightarrow> to_string v)"

definition new_blob :: "jsval list \<Rightarrow> string" where
  "new_blob parts = concat (map blob_part parts)"

subsection \<open>The HTTP client and the browser\<close>

datatype http_verb = GET | PUT | PATCH | DELETE

text \<open>What one axios call is given: the verb of the method called, the URL, the data
  argument (\<open>None\<close> when the call passes none) and the \<^verbatim>\<open>responseType\<close> of its config.\<close>

record request =
  verb :: http_verb
  url :: string
  data :: "jsval option"
  responseType :: "string option"

text \<open>An anchor element when it is clicked: \<open>href\<close> is the number of the object URL it
  points to, \<open>download\<close> the file name the browser saves under.\<close>

record anchor =
  href :: nat
  download :: string

text \<open>
  What the module can change: the requests handed to axios (oldest first), the Blobs
  registered with \<^verbatim>\<open>URL.createObjectURL\<close> (object URL \<open>n\<close> is the \<open>n\<close>-th; the module never
  revokes one) and the anchors clicked, each click a file-save action.
\<close>

record world =
  sent :: "request list"
  object_urls :: "string list"
  clicks :: "anchor list"

text \<open>
  The network is a parameter: \<open>net req\<close> is how the promise of the axios call for \<open>req\<close>
  ends (fulfilled with the response, rejected with the failure, or never settled).
\<close>

type_synonym network = "request \<Rightarrow> promise"

definition axios_call :: "network \<Rightarrow> request \<Rightarrow> world \<Rightarrow> promise \<times> world" where
  "axios_call net req w = (net req, w\<lparr>sent := sent w @ [req]\<rparr>)"

definition axios_get :: "network \<Rightarrow> string \<Rightarrow> string option \<Rightarrow> world \<Rightarrow> promise \<times> world" where
  "axios_get net u rt w =
     axios_call net \<lparr>verb = GET, url = u, data = None, responseType = rt\<rparr> w"

definition axios_patch :: "network \<Rightarrow> string \<Rightarrow> jsval \<Rightarrow> world \<Rightarrow> promise \<times> world" where
  "axios_patch net u d w =
     axios_call net \<lparr>verb = PATCH, url = u, data = Some d, responseType = None\<rparr> w"

definition axios_delete :: "network \<Rightarrow> string \<Rightarrow> world \<Rightarrow> promise \<times> world" where
  "axios_delete net u w =
     axios_call net \<lparr>verb = DELETE, url = u, data = None, responseType = None\<rparr> w"

definition axios_put :: "network \<Rightarrow> string \<Rightarrow> jsval \<Rightarrow> world \<Rightarrow> promise \<times> world" where
  "axios_put net u d w =
     axios_call net \<lparr>verb = PUT, url = u, data = Some d, responseType = None\<rparr> w"

text \<open>
  An \<^verbatim>\<open>async\<close> function that throws while it builds its URL returns a promise rejected with
  what was thrown, and has called nothing; otherwise it goes on to its axios call.
\<close>

definition async_body ::
  "string option \<Rightarrow> (string \<Rightarrow> world \<Rightarrow> promise \<times> world) \<Rightarrow> world \<Rightarrow> promise \<times> world" where
  "async_body u call w = (case u of None \<Rightarrow> (Rejected TypeError, w) | Some v \<Rightarrow> call v w)"

subsection \<open>The exported functions\<close>

text \<open>
  \<^verbatim>\<open>return axios.get(...)\<close> in an \<^verbatim>\<open>async\<close> function: the promise returned ends as the one
  of the axios call does.
\<close>

definition fetchPlatformsApi :: "network \<Rightarrow> world \<Rightarrow> promise \<times> world" where
  "fetchPlatformsApi net w = axios_get net ''/api/platforms'' None w"

text \<open>The one parameter is destructured:
  \<^verbatim>\<open>{platform, cursor = "", size = 60, searchTerm = ""}\<close>.\<close>

definition fetchRomsApi :: "network \<Rightarrow> jsval \<Rightarrow> world \<Rightarrow> promise \<times> world" where
  "fetchRomsApi net arg w =
     async_body
       (do {
          platform \<leftarrow> get_prop arg ''platform'';
          cursor \<leftarrow> map_option (default_to (JStr [])) (get_prop arg ''cursor'');
          size \<leftarrow> map_option (default_to (JNum 60)) (get_prop arg ''size'');
          searchTerm \<leftarrow> map_option (default_to (JStr [])) (get_prop arg ''searchTerm'');
          Some (''/api/platforms/'' @ to_string platform @ ''/roms?cursor='' @ to_string cursor
                @ ''&size='' @ to_string size @ ''&search_term='' @ to_string searchTerm)
        })
       (\<lambda>u. axios_get net u None) w"

definition fetchRomApi :: "network \<Rightarrow> jsval \<Rightarrow> jsval \<Rightarrow> world \<Rightarrow> promise \<times> world" where
  "fetchRomApi net platform rom w =
     axios_get net (''/api/platforms/'' @ to_string platform @ ''/roms/'' @ to_string rom) None w"

text \<open>The continuation given to \<^verbatim>\<open>then\<close>; when it throws, the promise \<^verbatim>\<open>then\<close> returned is
  rejected, and nothing holds that promise.\<close>

definition save_response :: "jsval \<Rightarrow> jsval \<Rightarrow> world \<Rightarrow> world" where
  "save_response rom response w =
     (case do {
             payload \<leftarrow> get_prop response ''data'';
             r_name \<leftarrow> get_prop rom ''r_name'';
             Some (new_blob [payload], to_string r_name @ ''.zip'')
           } of
        None \<Rightarrow> w
      | Some (blob, name) \<Rightarrow>
          w\<lparr>object_urls := object_urls w @ [blob],
            clicks := clicks w @ [\<lparr>href = length (object_urls w), download = name\<rparr>]\<rparr>)"

text \<open>\<^verbatim>\<open>p.then(f)\<close> with the promise it returns dropped: \<open>f\<close> runs when \<open>p\<close> is fulfilled.\<close>

definition then_dropped :: "promise \<Rightarrow> (jsval \<Rightarrow> world \<Rightarrow> world) \<Rightarrow> world \<Rightarrow> world" where
  "then_dropped p f w = (case p of Fulfilled v \<Rightarrow> f v w | _ \<Rightarrow> w)"

text \<open>
  The function has no \<^verbatim>\<open>return\<close> and no \<^verbatim>\<open>await\<close>: its promise is fulfilled with
  \<^verbatim>\<open>undefined\<close> as soon as the request is made. The world returned is the one after the
  continuation has had its turn.
\<close>

definition downloadRomApi :: "network \<Rightarrow> jsval \<Rightarrow> jsval \<Rightarrow> world \<Rightarrow> promise \<times> world" where
  "downloadRomApi net rom files w =
     async_body
       (do {
          p_slug \<leftarrow> get_prop rom ''p_slug'';
          ident \<leftarrow> get_prop rom ''id'';
          chosen \<leftarrow> (if truthy files then Some files else get_prop rom ''files'');
          Some (''/api/platforms/'' @ to_string p_slug @ ''/roms/'' @ to_string ident
                @ ''/download?files='' @ to_string chosen)
        })
       (\<lambda>u w0. case axios_get net u (Some ''blob'') w0 of
                 (p, w1) \<Rightarrow> (Fulfilled JUndefined, then_dropped p (save_response rom) w1)) w"

text \<open>The body is \<^verbatim>\<open>{ updatedRom }\<close>: an object with the one property \<^verbatim>\<open>updatedRom\<close>.\<close>

definition updateRomApi :: "network \<Rightarrow> jsval \<Rightarrow> jsval \<Rightarrow> world \<Rightarrow> promise \<times> world" where
  "updateRomApi net rom updatedRom w =
     async_body
       (do {
          p_slug \<leftarrow> get_prop rom ''p_slug'';
          ident \<leftarrow> get_prop rom ''id'';
          Some (''/api/platforms/'' @ to_string p_slug @ ''/roms/'' @ to_string ident)
        })
       (\<lambda>u. axios_patch net u (JObj [(''updatedRom'', updatedRom)])) w"

definition deleteRomApi :: "network \<Rightarrow> jsval \<Rightarrow> jsval \<Rightarrow> world \<Rightarrow> promise \<times> world" where
  "deleteRomApi net rom deleteFromFs w =
     async_body
       (do {
          p_slug \<leftarrow> get_prop rom ''p_slug'';
          ident \<leftarrow> get_prop rom ''id'';
          Some (''/api/platforms/'' @ to_string p_slug @ ''/roms/'' @ to_string ident
                @ ''?filesystem='' @ to_string deleteFromFs)
        })
       (\<lambda>u. axios_delete net u) w"

definition searchRomIGDBApi ::
  "network \<Rightarrow> jsval \<Rightarrow> jsval \<Rightarrow> jsval \<Rightarrow> world \<Rightarrow> promise \<times> world" where
  "searchRomIGDBApi net searchTerm searchBy rom w =
     axios_put net
       (''/api/search/roms/igdb?search_term='' @ to_string searchTerm
        @ ''&search_by='' @ to_string searchBy)
       (JObj [(''rom'', rom)]) w"

subsection \<open>Fixtures for concrete runs\<close>

text \<open>A network that answers every request the same way, and a world in which nothing has
  happened yet.\<close>

definition always :: "promise \<Rightarrow> network" where
  "always p req = p"

definition fresh :: world where
  "fresh = \<lparr>sent = [], object_urls = [], clicks = []\<rparr>"

section \<open>Properties\<close>

subsection \<open>Shared facts\<close>

lemmas api_defs =
  fetchPlatformsApi_def fetchRomsApi_def fetchRomApi_def downloadRomApi_def updateRomApi_def
  deleteRomApi_def searchRomIGDBApi_def async_body_def axios_get_def axios_patch_def
  axios_delete_def axios_put_def axios_call_def then_dropped_def save_response_def

lemmas eval_defs =
  always_def fresh_def own_prop_def default_to_def number_to_string_def string_of_nat.simps
  digit_char_def new_blob_def blob_part_def

lemma get_prop_readable:
  "v \<noteq> JUndefined \<Longrightarrow> v \<noteq> JNull \<Longrightarrow> \<exists>x. get_prop v k = Some x"
  by (cases v) simp_all

subsection \<open>Failures of the transport\<close>

lemma async_body_sent:
  assumes "sent (snd (async_body u (\<lambda>v. axios_call net (mk v)) w)) = sent w @ [req]"
  shows "\<exists>v. u = Some v \<and> req = mk v
           \<and> async_body u (\<lambda>v. axios_call net (mk v)) w
               = (net req, w\<lparr>sent := sent w @ [req]\<rparr>)"
  using assms by (cases u) (auto simp: async_body_def axios_call_def)

text \<open>
  Claim C1. \<^verbatim>\<open>fetchPlatformsApi\<close>, \<^verbatim>\<open>fetchRomsApi\<close>, \<^verbatim>\<open>fetchRomApi\<close>, \<^verbatim>\<open>updateRomApi\<close>,
  \<^verbatim>\<open>deleteRomApi\<close> and \<^verbatim>\<open>searchRomIGDBApi\<close>: when the function hands the request \<open>req\<close> to
  axios and the promise of that call is rejected with \<open>e\<close>, the promise the function returns
  is rejected with the same \<open>e\<close>.
\<close>

theorem failures_propagate:
  "(sent (snd (fetchPlatformsApi net w)) = sent w @ [req] \<and> net req = Rejected e
      \<longrightarrow> fst (fetchPlatformsApi net w) = Rejected e)
   \<and> (sent (snd (fetchRomsApi net arg w)) = sent w @ [req] \<and> net req = Rejected e
      \<longrightarrow> fst (fetchRomsApi net arg w) = Rejected e)
   \<and> (sent (snd (fetchRomApi net platform romId w)) = sent w @ [req] \<and> net req = Rejected e
      \<longrightarrow> fst (fetchRomApi net platform romId w) = Rejected e)
   \<and> (sent (snd (updateRomApi net rom updatedRom w)) = sent w @ [req] \<and> net req = Rejected e
      \<longrightarrow> fst (updateRomApi net rom updatedRom w) = Rejected e)
   \<and> (sent (snd (deleteRomApi net rom deleteFromFs w)) = sent w @ [req] \<and> net req = Rejected e
      \<longrightarrow> fst (deleteRomApi net rom deleteFromFs w) = Rejected e)
   \<and> (sent (snd (searchRomIGDBApi net searchTerm searchBy rom w)) = sent w @ [req]
        \<and> net req = Rejected e
      \<longrightarrow> fst (searchRomIGDBApi net searchTerm searchBy rom w) = Rejected e)"
proof -
  have direct: "fst (axios_call net r w) = Rejected e"
    if "sent (snd (axios_call net r w)) = sent w @ [req]" "net req = Rejected e" for r
    using that by (simp add: axios_call_def)
  have guarded: "fst (async_body u (\<lambda>v. axios_call net (mk v)) w) = Rejected e"
    if "sent (snd (async_body u (\<lambda>v. axios_call net (mk v)) w)) = sent w @ [req]"
      "net req = Rejected e" for u mk
    using async_body_sent [OF that(1)] that(2) by auto
  show ?thesis
    unfolding fetchPlatformsApi_def fetchRomsApi_def fetchRomApi_def updateRomApi_def
      deleteRomApi_def searchRomIGDBApi_def axios_get_def axios_patch_def axios_delete_def
      axios_put_def
    by (intro conjI impI; elim conjE; (erule direct | erule guarded); assumption)
qed

theorem failures_propagate_witness:
  "sent (snd (fetchPlatformsApi (always (Rejected (Thrown (JStr ''Network Error'')))) fresh))
     = sent fresh @ [\<lparr>verb = GET, url = ''/api/platforms'', data = None, responseType = None\<rparr>]
   \<and> fst (fetchPlatformsApi (always (Rejected (Thrown (JStr ''Network Error'')))) fresh)
     = Rejected (Thrown (JStr ''Network Error''))
   \<and> fst (fetchRomsApi (always (Rejected (Thrown (JStr ''Network Error''))))
            (JObj [(''platform'', JStr ''snes'')]) fresh)
     = Rejected (Thrown (JStr ''Network Error''))
   \<and> fst (fetchRomApi (always (Rejected (Thrown (JStr ''Network Error''))))
            (JStr ''snes'') (JNum 42) fresh)
     = Rejected (Thrown (JStr ''Network Error''))
   \<and> fst (updateRomApi (always (Rejected (Thrown (JStr ''Network Error''))))
            (JObj [(''p_slug'', JStr ''nes''), (''id'', JNum 7)])
            (JObj [(''r_name'', JStr ''X'')]) fresh)
     = Rejected (Thrown (JStr ''Network Error''))
   \<and> fst (deleteRomApi (always (Rejected (Thrown (JStr ''Network Error''))))
            (JObj [(''p_slug'', JStr ''nes''), (''id'', JNum 7)]) (JBool True) fresh)
     = Rejected (Thrown (JStr ''Network Error''))
   \<and> fst (searchRomIGDBApi (always (Rejected (Thrown (JStr ''Network Error''))))
            (JStr ''zelda'') (JStr ''name'') (JObj [(''id'', JNum 7)]) fresh)
     = Rejected (Thrown (JStr ''Network Error''))"
proof -
  let ?net = "always (Rejected (Thrown (JStr ''Network Error'')))"
  let ?e = "Thrown (JStr ''Network Error'')"
  let ?rom = "JObj [(''p_slug'', JStr ''nes''), (''id'', JNum 7)]"
  note inst = failures_propagate [where net = ?net and w = fresh and e = ?e
      and arg = "JObj [(''platform'', JStr ''snes'')]"
      and platform = "JStr ''snes''" and romId = "JNum 42" and rom = ?rom
      and updatedRom = "JObj [(''r_name'', JStr ''X'')]" and deleteFromFs = "JBool True"
      and searchTerm = "JStr ''zelda''" and searchBy = "JStr ''name''"]
  show ?thesis
    using
      inst [where req = "\<lparr>verb = GET, url = ''/api/platforms'', data = None,
        responseType = None\<rparr>"]
      inst [where req = "\<lparr>verb = GET,
        url = ''/api/platforms/snes/roms?cursor=&size=60&search_term='', data = None,
        responseType = None\<rparr>"]
      inst [where req = "\<lparr>verb = GET, url = ''/api/platforms/snes/roms/42'', data = None,
        responseType = None\<rparr>"]
      inst [where req = "\<lparr>verb = PATCH, url = ''/api/platforms/nes/roms/7'',
        data = Some (JObj [(''updatedRom'', JObj [(''r_name'', JStr ''X'')])]),
        responseType = None\<rparr>"]
      inst [where req = "\<lparr>verb = DELETE, url = ''/api/platforms/nes/roms/7?filesystem=true'',
        data = None, responseType = None\<rparr>"]
      inst [where req = "\<lparr>verb = PUT,
        url = ''/api/search/roms/igdb?search_term=zelda&search_by=name'',
        data = Some (JObj [(''rom'', JObj [(''id'', JNum 7)])]), responseType = None\<rparr>"]
    by (simp add: api_defs eval_defs)
qed

subsection \<open>The download: what the caller sees\<close>

lemma downloadRomApi_object:
  "downloadRomApi net (JObj ps) files w =
     (Fulfilled JUndefined,
      then_dropped
        (net \<lparr>verb = GET,
              url = ''/api/platforms/'' @ to_string (own_prop ps ''p_slug'') @ ''/roms/''
                    @ to_string (own_prop ps ''id'') @ ''/download?files=''
                    @ to_string (if truthy files then files else own_prop ps ''files''),
              data = None, responseType = Some ''blob''\<rparr>)
        (save_response (JObj ps))
        (w\<lparr>sent := sent w @
           [\<lparr>verb = GET,
             url = ''/api/platforms/'' @ to_string (own_prop ps ''p_slug'') @ ''/roms/''
                   @ to_string (own_prop ps ''id'') @ ''/download?files=''
                   @ to_string (if truthy files then files else own_prop ps ''files''),
             data = None, responseType = Some ''blob''\<rparr>]\<rparr>))"
  by (simp add: downloadRomApi_def async_body_def axios_get_def axios_call_def)

lemma downloadRomApi_fst:
  "fst (downloadRomApi net rom files w) =
     (if rom = JUndefined \<or> rom = JNull then Rejected TypeError else Fulfilled JUndefined)"
  by (cases rom)
    (simp_all add: downloadRomApi_def async_body_def axios_get_def axios_call_def)

lemma sent_save_response: "sent (save_response rom response w) = sent w"
  by (simp add: save_response_def split: option.split prod.split)

lemma sent_then_dropped_save: "sent (then_dropped p (save_response rom) w) = sent w"
  by (cases p) (simp_all add: then_dropped_def sent_save_response)

lemma downloadRomApi_readable:
  assumes "rom \<noteq> JUndefined" "rom \<noteq> JNull"
  shows "\<exists>r. downloadRomApi net rom files w =
           (Fulfilled JUndefined,
            then_dropped (net r) (save_response rom) (w\<lparr>sent := sent w @ [r]\<rparr>))"
proof -
  from assms obtain a1 a2 a3 where
    "get_prop rom ''p_slug'' = Some a1" "get_prop rom ''id'' = Some a2"
    "get_prop rom ''files'' = Some a3"
    using get_prop_readable by metis
  then show ?thesis
    by (cases "truthy files")
      (auto simp: downloadRomApi_def async_body_def axios_get_def axios_call_def intro!: exI)
qed

lemma downloadRomApi_unreadable:
  assumes "rom = JUndefined \<or> rom = JNull"
  shows "downloadRomApi net rom files w = (Rejected TypeError, w)"
  using assms by (auto simp: downloadRomApi_def async_body_def)

text \<open>
  Claim C2. \<^verbatim>\<open>downloadRomApi\<close> gives its caller nothing to use: the promise it returns does
  not depend on how the network answers, and for every rom whose properties can be read it
  is fulfilled with \<^verbatim>\<open>undefined\<close>. When the request it issued is rejected, the caller still
  sees that fulfilled promise, and the only trace left is the request itself.
\<close>

theorem download_failure_dropped:
  "fst (downloadRomApi net rom files w) = fst (downloadRomApi net' rom files w)
   \<and> (rom \<noteq> JUndefined \<and> rom \<noteq> JNull
        \<longrightarrow> fst (downloadRomApi net rom files w) = Fulfilled JUndefined)
   \<and> (sent (snd (downloadRomApi net rom files w)) = sent w @ [req] \<and> net req = Rejected e
        \<longrightarrow> fst (downloadRomApi net rom files w) = Fulfilled JUndefined
            \<and> snd (downloadRomApi net rom files w) = w\<lparr>sent := sent w @ [req]\<rparr>)"
proof (intro conjI impI)
  show "fst (downloadRomApi net rom files w) = fst (downloadRomApi net' rom files w)"
    by (simp add: downloadRomApi_fst)
next
  assume "rom \<noteq> JUndefined \<and> rom \<noteq> JNull"
  then show "fst (downloadRomApi net rom files w) = Fulfilled JUndefined"
    by (simp add: downloadRomApi_fst)
next
  assume a: "sent (snd (downloadRomApi net rom files w)) = sent w @ [req] \<and> net req = Rejected e"
  have r: "rom \<noteq> JUndefined \<and> rom \<noteq> JNull"
    using a downloadRomApi_unreadable [of rom net files w] by auto
  then obtain q where q: "downloadRomApi net rom files w =
      (Fulfilled JUndefined,
       then_dropped (net q) (save_response rom) (w\<lparr>sent := sent w @ [q]\<rparr>))"
    using downloadRomApi_readable by blast
  with a have "q = req"
    by (simp add: sent_then_dropped_save)
  with q a show "fst (downloadRomApi net rom files w) = Fulfilled JUndefined"
    and "snd (downloadRomApi net rom files w) = w\<lparr>sent := sent w @ [req]\<rparr>"
    by (simp_all add: then_dropped_def)
qed

theorem download_failure_dropped_witness:
  "fst (downloadRomApi (always (Rejected (Thrown (JStr ''Network Error''))))
          (JObj [(''p_slug'', JStr ''nes''), (''id'', JNum 7), (''r_name'', JStr ''Zelda''),
                 (''files'', JStr ''zelda.nes'')]) JUndefined fresh)
     = fst (downloadRomApi (always (Fulfilled (JObj [(''data'', JBlob ''PK'')])))
          (JObj [(''p_slug'', JStr ''nes''), (''id'', JNum 7), (''r_name'', JStr ''Zelda''),
                 (''files'', JStr ''zelda.nes'')]) JUndefined fresh)
   \<and> fst (downloadRomApi (always (Rejected (Thrown (JStr ''Network Error''))))
          (JObj [(''p_slug'', JStr ''nes''), (''id'', JNum 7), (''r_name'', JStr ''Zelda''),
                 (''files'', JStr ''zelda.nes'')]) JUndefined fresh)
     = Fulfilled JUndefined
   \<and> snd (downloadRomApi (always (Rejected (Thrown (JStr ''Network Error''))))
          (JObj [(''p_slug'', JStr ''nes''), (''id'', JNum 7), (''r_name'', JStr ''Zelda''),
                 (''files'', JStr ''zelda.nes'')]) JUndefined fresh)
     = fresh\<lparr>sent :=
         [\<lparr>verb = GET, url = ''/api/platforms/nes/roms/7/download?files=zelda.nes'',
           data = None, responseType = Some ''blob''\<rparr>]\<rparr>"
  using download_failure_dropped
    [where net = "always (Rejected (Thrown (JStr ''Network Error'')))"
       and net' = "always (Fulfilled (JObj [(''data'', JBlob ''PK'')]))"
       and rom = "JObj [(''p_slug'', JStr ''nes''), (''id'', JNum 7),
                        (''r_name'', JStr ''Zelda''), (''files'', JStr ''zelda.nes'')]"
       and files = JUndefined and w = fresh and e = "Thrown (JStr ''Network Error'')"
       and req = "\<lparr>verb = GET, url = ''/api/platforms/nes/roms/7/download?files=zelda.nes'',
           data = None, responseType = Some ''blob''\<rparr>"]
  by (simp add: api_defs eval_defs)

subsection \<open>The listing query\<close>

lemma fetchRomsApi_object:
  "fetchRomsApi net (JObj ps) w =
     axios_call net
       \<lparr>verb = GET,
        url = ''/api/platforms/'' @ to_string (own_prop ps ''platform'')
              @ ''/roms?cursor='' @ to_string (default_to (JStr []) (own_prop ps ''cursor''))
              @ ''&size='' @ to_string (default_to (JNum 60) (own_prop ps ''size''))
              @ ''&search_term='' @ to_string (default_to (JStr []) (own_prop ps ''searchTerm'')),
        data = None, responseType = None\<rparr> w"
  by (simp add: fetchRomsApi_def async_body_def axios_get_def)

lemma to_string_default:
  "to_string (default_to d v) = (if v = JUndefined then to_string d else to_string v)"
  by (cases v) (simp_all add: default_to_def)

lemma number_to_string_60: "number_to_string 60 = ''60''"
  by (simp add: number_to_string_def string_of_nat.simps digit_char_def)

text \<open>
  Claim C3. For every options object, \<^verbatim>\<open>fetchRomsApi\<close> issues one GET whose query string is
  \<^verbatim>\<open>cursor=...&size=...&search_term=...\<close> with the three fields as the template literal prints
  them, and \<^verbatim>\<open>""\<close>, \<^verbatim>\<open>60\<close>, \<^verbatim>\<open>""\<close> in place of an absent (\<^verbatim>\<open>undefined\<close>) field. String fields
  appear verbatim; with only the platform given the query is
  \<^verbatim>\<open>cursor=&size=60&search_term=\<close>.
\<close>

theorem fetchRoms_query_string:
  "fetchRomsApi net (JObj ps) w =
     (net \<lparr>verb = GET,
           url = ''/api/platforms/'' @ to_string (own_prop ps ''platform'')
                 @ ''/roms?cursor=''
                 @ (if own_prop ps ''cursor'' = JUndefined then []
                    else to_string (own_prop ps ''cursor''))
                 @ ''&size=''
                 @ (if own_prop ps ''size'' = JUndefined then ''60''
                    else to_string (own_prop ps ''size''))
                 @ ''&search_term=''
                 @ (if own_prop ps ''searchTerm'' = JUndefined then []
                    else to_string (own_prop ps ''searchTerm'')),
           data = None, responseType = None\<rparr>,
      w\<lparr>sent := sent w @
        [\<lparr>verb = GET,
          url = ''/api/platforms/'' @ to_string (own_prop ps ''platform'')
                @ ''/roms?cursor=''
                @ (if own_prop ps ''cursor'' = JUndefined then []
                   else to_string (own_prop ps ''cursor''))
                @ ''&size=''
                @ (if own_prop ps ''size'' = JUndefined then ''60''
                   else to_string (own_prop ps ''size''))
                @ ''&search_term=''
                @ (if own_prop ps ''searchTerm'' = JUndefined then []
                   else to_string (own_prop ps ''searchTerm'')),
          data = None, responseType = None\<rparr>]\<rparr>)
   \<and> map url (sent (snd (fetchRomsApi net
         (JObj [(''platform'', JStr p), (''cursor'', JStr c), (''size'', JNum n),
                (''searchTerm'', JStr s)]) w)))
       = map url (sent w)
         @ [''/api/platforms/'' @ p @ ''/roms?cursor='' @ c @ ''&size='' @ number_to_string n
            @ ''&search_term='' @ s]
   \<and> map url (sent (snd (fetchRomsApi net (JObj [(''platform'', JStr p)]) w)))
       = map url (sent w) @ [''/api/platforms/'' @ p @ ''/roms?cursor=&size=60&search_term='']"
  by (simp add: fetchRomsApi_object to_string_default number_to_string_60 axios_call_def
      own_prop_def)

subsection \<open>The download: which files\<close>

lemma downloadRomApi_sent_object:
  "sent (snd (downloadRomApi net (JObj ps) files w)) =
     sent w @
       [\<lparr>verb = GET,
         url = ''/api/platforms/'' @ to_string (own_prop ps ''p_slug'') @ ''/roms/''
               @ to_string (own_prop ps ''id'') @ ''/download?files=''
               @ to_string (if truthy files then files else own_prop ps ''files''),
         data = None, responseType = Some ''blob''\<rparr>]"
  by (simp add: downloadRomApi_def async_body_def axios_get_def axios_call_def
      sent_then_dropped_save)

text \<open>
  Claim C4, as stated, fails: the choice is made by \<^verbatim>\<open>files || rom.files\<close>, so an explicit
  but falsy \<^verbatim>\<open>files\<close> is passed over. With the explicit empty string the URL carries
  \<^verbatim>\<open>rom.files\<close>, not the value given.
\<close>

theorem download_explicit_files_counterexample:
  "map url (sent (snd (downloadRomApi (always Pending)
       (JObj [(''p_slug'', JStr ''nes''), (''id'', JNum 7), (''r_name'', JStr ''Zelda''),
              (''files'', JStr ''zelda.nes'')])
       (JStr []) fresh)))
     = [''/api/platforms/nes/roms/7/download?files=zelda.nes'']
   \<and> ''/api/platforms/nes/roms/7/download?files=zelda.nes''
       \<noteq> ''/api/platforms/nes/roms/7/download?files='' @ to_string (JStr [])"
  by (simp add: downloadRomApi_sent_object eval_defs)

text \<open>
  Claim C4, amended. For every rom object, the \<^verbatim>\<open>files\<close> query parameter of the download URL
  is the \<^verbatim>\<open>files\<close> argument when that is truthy, and \<^verbatim>\<open>rom.files\<close> when it is falsy, that is
  when it is \<^verbatim>\<open>undefined\<close>, \<^verbatim>\<open>null\<close>, \<^verbatim>\<open>false\<close>, \<^verbatim>\<open>0\<close>, \<^verbatim>\<open>NaN\<close> or the empty string. In
  particular \<^verbatim>\<open>files = undefined\<close> falls back to \<^verbatim>\<open>rom.files\<close>.
\<close>

theorem download_files_choice:
  "map url (sent (snd (downloadRomApi net (JObj ps) files w))) =
     map url (sent w) @
       [''/api/platforms/'' @ to_string (own_prop ps ''p_slug'') @ ''/roms/''
        @ to_string (own_prop ps ''id'') @ ''/download?files=''
        @ to_string (if truthy files then files else own_prop ps ''files'')]
   \<and> (files \<in> {JUndefined, JNull, JBool False, JNum 0, JNaN, JStr []} \<longleftrightarrow> \<not> truthy files)
   \<and> (files = JUndefined \<longrightarrow>
        map url (sent (snd (downloadRomApi net (JObj ps) files w))) =
          map url (sent w) @
            [''/api/platforms/'' @ to_string (own_prop ps ''p_slug'') @ ''/roms/''
             @ to_string (own_prop ps ''id'') @ ''/download?files=''
             @ to_string (own_prop ps ''files'')])
   \<and> (truthy files \<longrightarrow>
        map url (sent (snd (downloadRomApi net (JObj ps) files w))) =
          map url (sent w) @
            [''/api/platforms/'' @ to_string (own_prop ps ''p_slug'') @ ''/roms/''
             @ to_string (own_prop ps ''id'') @ ''/download?files='' @ to_string files])"
proof -
  have "files \<in> {JUndefined, JNull, JBool False, JNum 0, JNaN, JStr []} \<longleftrightarrow> \<not> truthy files"
    by (cases files) auto
  then show ?thesis
    by (simp add: downloadRomApi_sent_object)
qed

theorem download_files_choice_witness:
  "map url (sent (snd (downloadRomApi (always Pending)
       (JObj [(''p_slug'', JStr ''nes''), (''id'', JNum 7), (''files'', JStr ''zelda.nes'')])
       JUndefined fresh)))
     = [''/api/platforms/nes/roms/7/download?files=zelda.nes'']
   \<and> truthy (JStr ''disk2.bin'')
   \<and> map url (sent (snd (downloadRomApi (always Pending)
       (JObj [(''p_slug'', JStr ''nes''), (''id'', JNum 7), (''files'', JStr ''zelda.nes'')])
       (JStr ''disk2.bin'') fresh)))
     = [''/api/platforms/nes/roms/7/download?files=disk2.bin'']"
  using
    download_files_choice [where net = "always Pending" and w = fresh and files = JUndefined
      and ps = "[(''p_slug'', JStr ''nes''), (''id'', JNum 7), (''files'', JStr ''zelda.nes'')]"]
    download_files_choice [where net = "always Pending" and w = fresh
      and files = "JStr ''disk2.bin''"
      and ps = "[(''p_slug'', JStr ''nes''), (''id'', JNum 7), (''files'', JStr ''zelda.nes'')]"]
  by (simp add: eval_defs)

subsection \<open>Update, delete, fetch one, search\<close>

text \<open>
  Claim C5. For every rom object and every \<open>updatedFields\<close>, \<^verbatim>\<open>updateRomApi\<close> hands axios one
  PATCH to \<^verbatim>\<open>/api/platforms/{rom.p_slug}/roms/{rom.id}\<close> whose body is the object with the
  single property \<^verbatim>\<open>updatedRom\<close> holding the fields, and returns the promise of that call.
  With the fields \<^verbatim>\<open>{r_name: "X"}\<close> the body is \<^verbatim>\<open>{updatedRom: {r_name: "X"}}\<close>.
\<close>

theorem updateRom_patch_envelope:
  "updateRomApi net (JObj ps) updatedFields w =
     (net \<lparr>verb = PATCH,
           url = ''/api/platforms/'' @ to_string (own_prop ps ''p_slug'') @ ''/roms/''
                 @ to_string (own_prop ps ''id''),
           data = Some (JObj [(''updatedRom'', updatedFields)]), responseType = None\<rparr>,
      w\<lparr>sent := sent w @
        [\<lparr>verb = PATCH,
          url = ''/api/platforms/'' @ to_string (own_prop ps ''p_slug'') @ ''/roms/''
                @ to_string (own_prop ps ''id''),
          data = Some (JObj [(''updatedRom'', updatedFields)]), responseType = None\<rparr>]\<rparr>)
   \<and> map (\<lambda>r. (verb r, data r))
         (sent (snd (updateRomApi net (JObj ps) (JObj [(''r_name'', JStr ''X'')]) fresh)))
       = [(PATCH, Some (JObj [(''updatedRom'', JObj [(''r_name'', JStr ''X'')])]))]
   \<and> sent (snd (updateRomApi net (JObj [(''p_slug'', JStr ''nes''), (''id'', JNum 7)])
                   (JObj [(''r_name'', JStr ''X'')]) fresh))
       = [\<lparr>verb = PATCH, url = ''/api/platforms/nes/roms/7'',
           data = Some (JObj [(''updatedRom'', JObj [(''r_name'', JStr ''X'')])]),
           responseType = None\<rparr>]"
  by (simp add: updateRomApi_def async_body_def axios_patch_def axios_call_def eval_defs)

text \<open>
  Claim C6. For every rom object and every boolean flag, \<^verbatim>\<open>deleteRomApi\<close> hands axios one
  DELETE to \<^verbatim>\<open>/api/platforms/{p_slug}/roms/{id}?filesystem={flag}\<close>, the flag printed as
  \<^verbatim>\<open>true\<close> or \<^verbatim>\<open>false\<close>; for \<^verbatim>\<open>{p_slug: "nes", id: 7}\<close> and \<^verbatim>\<open>true\<close> the URL is
  \<^verbatim>\<open>/api/platforms/nes/roms/7?filesystem=true\<close>.
\<close>

theorem deleteRom_filesystem_flag:
  "deleteRomApi net (JObj ps) (JBool flag) w =
     (net \<lparr>verb = DELETE,
           url = ''/api/platforms/'' @ to_string (own_prop ps ''p_slug'') @ ''/roms/''
                 @ to_string (own_prop ps ''id'') @ ''?filesystem=''
                 @ (if flag then ''true'' else ''false''),
           data = None, responseType = None\<rparr>,
      w\<lparr>sent := sent w @
        [\<lparr>verb = DELETE,
          url = ''/api/platforms/'' @ to_string (own_prop ps ''p_slug'') @ ''/roms/''
                @ to_string (own_prop ps ''id'') @ ''?filesystem=''
                @ (if flag then ''true'' else ''false''),
          data = None, responseType = None\<rparr>]\<rparr>)
   \<and> sent (snd (deleteRomApi net (JObj [(''p_slug'', JStr ''nes''), (''id'', JNum 7)])
                   (JBool True) fresh))
       = [\<lparr>verb = DELETE, url = ''/api/platforms/nes/roms/7?filesystem=true'',
           data = None, responseType = None\<rparr>]"
  by (simp add: deleteRomApi_def async_body_def axios_delete_def axios_call_def eval_defs)

text \<open>
  Claim C7. For every platform and rom id, \<^verbatim>\<open>fetchRomApi\<close> hands axios one GET to exactly
  \<^verbatim>\<open>/api/platforms/{platform}/roms/{id}\<close>: nothing follows the id, so the URL has no query
  part unless an argument brings a question mark itself. For \<^verbatim>\<open>"snes"\<close> and \<^verbatim>\<open>42\<close> the URL
  is \<^verbatim>\<open>/api/platforms/snes/roms/42\<close>.
\<close>

theorem fetchRom_exact_url:
  "fetchRomApi net platform romId w =
     (net \<lparr>verb = GET,
           url = ''/api/platforms/'' @ to_string platform @ ''/roms/'' @ to_string romId,
           data = None, responseType = None\<rparr>,
      w\<lparr>sent := sent w @
        [\<lparr>verb = GET,
          url = ''/api/platforms/'' @ to_string platform @ ''/roms/'' @ to_string romId,
          data = None, responseType = None\<rparr>]\<rparr>)
   \<and> (CHR ''?'' \<notin> set (to_string platform) \<and> CHR ''?'' \<notin> set (to_string romId)
        \<longrightarrow> CHR ''?'' \<notin> set (url (last (sent (snd (fetchRomApi net platform romId w))))))
   \<and> sent (snd (fetchRomApi net (JStr ''snes'') (JNum 42) fresh))
       = [\<lparr>verb = GET, url = ''/api/platforms/snes/roms/42'', data = None,
           responseType = None\<rparr>]"
  by (simp add: fetchRomApi_def axios_get_def axios_call_def eval_defs)

theorem fetchRom_exact_url_witness:
  "CHR ''?'' \<notin> set (to_string (JStr ''gba'')) \<and> CHR ''?'' \<notin> set (to_string (JNum 1203))
   \<and> CHR ''?'' \<notin> set (url (last (sent (snd (fetchRomApi (always Pending) (JStr ''gba'')
         (JNum 1203) fresh)))))
   \<and> url (last (sent (snd (fetchRomApi (always Pending) (JStr ''gba'') (JNum 1203) fresh))))
       = ''/api/platforms/gba/roms/1203''"
  using fetchRom_exact_url [where net = "always Pending" and platform = "JStr ''gba''"
      and romId = "JNum 1203" and w = fresh]
  by (simp add: eval_defs)

text \<open>
  Claim C8. For every search term, selector and rom, \<^verbatim>\<open>searchRomIGDBApi\<close> hands axios one PUT
  to \<^verbatim>\<open>/api/search/roms/igdb?search_term={searchTerm}&search_by={searchBy}\<close> with the body
  \<^verbatim>\<open>{rom: rom}\<close>, and the promise it returns is the promise of that call: the response comes
  back unchanged.
\<close>

theorem searchRomIGDB_put:
  "searchRomIGDBApi net searchTerm searchBy rom w =
     (net \<lparr>verb = PUT,
           url = ''/api/search/roms/igdb?search_term='' @ to_string searchTerm
                 @ ''&search_by='' @ to_string searchBy,
           data = Some (JObj [(''rom'', rom)]), responseType = None\<rparr>,
      w\<lparr>sent := sent w @
        [\<lparr>verb = PUT,
          url = ''/api/search/roms/igdb?search_term='' @ to_string searchTerm
                @ ''&search_by='' @ to_string searchBy,
          data = Some (JObj [(''rom'', rom)]), responseType = None\<rparr>]\<rparr>)
   \<and> sent (snd (searchRomIGDBApi net (JStr q) (JStr field) rom fresh))
       = [\<lparr>verb = PUT,
           url = ''/api/search/roms/igdb?search_term='' @ q @ ''&search_by='' @ field,
           data = Some (JObj [(''rom'', rom)]), responseType = None\<rparr>]"
  by (simp add: searchRomIGDBApi_def axios_put_def axios_call_def eval_defs)

subsection \<open>The download: the save action\<close>

lemma save_response_object:
  "get_prop response ''data'' = Some payload \<Longrightarrow>
   save_response (JObj ps) response w =
     w\<lparr>object_urls := object_urls w @ [new_blob [payload]],
       clicks := clicks w @
         [\<lparr>href = length (object_urls w),
           download = to_string (own_prop ps ''r_name'') @ ''.zip''\<rparr>]\<rparr>"
  by (simp add: save_response_def)

text \<open>
  Claim C9. For every rom object, when the request of \<^verbatim>\<open>downloadRomApi\<close> is fulfilled with a
  response whose \<^verbatim>\<open>data\<close> can be read, exactly one anchor is clicked: its \<^verbatim>\<open>download\<close> name is
  \<^verbatim>\<open>{rom.r_name}.zip\<close> and its \<^verbatim>\<open>href\<close> is the object URL, created for this click, of the
  Blob built from the one part \<^verbatim>\<open>response.data\<close> (the payload's own bytes when it is a Blob).
\<close>

theorem download_success_saves_zip:
  assumes "net \<lparr>verb = GET,
                url = ''/api/platforms/'' @ to_string (own_prop ps ''p_slug'') @ ''/roms/''
                      @ to_string (own_prop ps ''id'') @ ''/download?files=''
                      @ to_string (if truthy files then files else own_prop ps ''files''),
                data = None, responseType = Some ''blob''\<rparr> = Fulfilled response"
    and "get_prop response ''data'' = Some payload"
  shows "clicks (snd (downloadRomApi net (JObj ps) files w)) =
           clicks w @
             [\<lparr>href = length (object_urls w),
               download = to_string (own_prop ps ''r_name'') @ ''.zip''\<rparr>]
         \<and> object_urls (snd (downloadRomApi net (JObj ps) files w)) =
           object_urls w @ [new_blob [payload]]
         \<and> new_blob [payload] = (case payload of JBlob bytes \<Rightarrow> bytes | _ \<Rightarrow> to_string payload)
         \<and> length (clicks (snd (downloadRomApi net (JObj ps) files w))) = length (clicks w) + 1"
  using assms
  by (simp add: downloadRomApi_object then_dropped_def save_response_object new_blob_def
      blob_part_def)

theorem download_success_saves_zip_witness:
  "always (Fulfilled (JObj [(''status'', JNum 200), (''data'', JBlob ''PK'')]))
       \<lparr>verb = GET, url = ''/api/platforms/nes/roms/7/download?files=zelda.nes'',
        data = None, responseType = Some ''blob''\<rparr>
     = Fulfilled (JObj [(''status'', JNum 200), (''data'', JBlob ''PK'')])
   \<and> get_prop (JObj [(''status'', JNum 200), (''data'', JBlob ''PK'')]) ''data''
     = Some (JBlob ''PK'')
   \<and> clicks (snd (downloadRomApi
         (always (Fulfilled (JObj [(''status'', JNum 200), (''data'', JBlob ''PK'')])))
         (JObj [(''p_slug'', JStr ''nes''), (''id'', JNum 7), (''r_name'', JStr ''Zelda''),
                (''files'', JStr ''zelda.nes'')]) JUndefined fresh))
     = [\<lparr>href = 0, download = ''Zelda.zip''\<rparr>]
   \<and> object_urls (snd (downloadRomApi
         (always (Fulfilled (JObj [(''status'', JNum 200), (''data'', JBlob ''PK'')])))
         (JObj [(''p_slug'', JStr ''nes''), (''id'', JNum 7), (''r_name'', JStr ''Zelda''),
                (''files'', JStr ''zelda.nes'')]) JUndefined fresh))
     = [''PK'']"
  using download_success_saves_zip
    [where net = "always (Fulfilled (JObj [(''status'', JNum 200), (''data'', JBlob ''PK'')]))"
       and ps = "[(''p_slug'', JStr ''nes''), (''id'', JNum 7), (''r_name'', JStr ''Zelda''),
                  (''files'', JStr ''zelda.nes'')]"
       and files = JUndefined and w = fresh
       and response = "JObj [(''status'', JNum 200), (''data'', JBlob ''PK'')]"
       and payload = "JBlob ''PK''"]
  by (simp add: eval_defs)

subsection \<open>The download: a list of files\<close>

lemma to_string_string_array: "to_string (JArr (map JStr names)) = join '','' names"
  by (simp add: comp_def)

text \<open>
  Claim C10. When the \<^verbatim>\<open>files\<close> argument of \<^verbatim>\<open>downloadRomApi\<close> is an array of strings, or is
  falsy while \<^verbatim>\<open>rom.files\<close> is such an array, the \<^verbatim>\<open>files\<close> query parameter is the elements
  joined by commas; \<^verbatim>\<open>["a", "b"]\<close> yields \<^verbatim>\<open>?files=a,b\<close>.
\<close>

theorem download_files_array_joined:
  "map url (sent (snd (downloadRomApi net (JObj ps) (JArr (map JStr names)) w))) =
     map url (sent w) @
       [''/api/platforms/'' @ to_string (own_prop ps ''p_slug'') @ ''/roms/''
        @ to_string (own_prop ps ''id'') @ ''/download?files='' @ join '','' names]
   \<and> (\<not> truthy files \<and> own_prop ps ''files'' = JArr (map JStr names) \<longrightarrow>
        map url (sent (snd (downloadRomApi net (JObj ps) files w))) =
          map url (sent w) @
            [''/api/platforms/'' @ to_string (own_prop ps ''p_slug'') @ ''/roms/''
             @ to_string (own_prop ps ''id'') @ ''/download?files='' @ join '','' names])
   \<and> join '','' [''a'', ''b''] = ''a,b''
   \<and> map url (sent (snd (downloadRomApi net
         (JObj [(''p_slug'', JStr ''nes''), (''id'', JNum 7)])
         (JArr [JStr ''a'', JStr ''b'']) fresh)))
       = [''/api/platforms/nes/roms/7/download?files=a,b'']"
proof -
  have general: "map url (sent (snd (downloadRomApi net (JObj ps) (JArr (map JStr names)) w))) =
     map url (sent w) @
       [''/api/platforms/'' @ to_string (own_prop ps ''p_slug'') @ ''/roms/''
        @ to_string (own_prop ps ''id'') @ ''/download?files='' @ join '','' names]"
    by (simp add: downloadRomApi_sent_object to_string_string_array del: to_string.simps(7))
  have fallback: "map url (sent (snd (downloadRomApi net (JObj ps) files w))) =
          map url (sent w) @
            [''/api/platforms/'' @ to_string (own_prop ps ''p_slug'') @ ''/roms/''
             @ to_string (own_prop ps ''id'') @ ''/download?files='' @ join '','' names]"
    if "\<not> truthy files \<and> own_prop ps ''files'' = JArr (map JStr names)"
    using that
    by (simp add: downloadRomApi_sent_object to_string_string_array del: to_string.simps(7))
  have example: "map url (sent (snd (downloadRomApi net
         (JObj [(''p_slug'', JStr ''nes''), (''id'', JNum 7)])
         (JArr [JStr ''a'', JStr ''b'']) fresh)))
       = [''/api/platforms/nes/roms/7/download?files=a,b'']"
    by (simp add: downloadRomApi_sent_object eval_defs)
  from general fallback example show ?thesis
    by simp
qed

theorem download_files_array_joined_witness:
  "\<not> truthy JUndefined
   \<and> own_prop [(''p_slug'', JStr ''nes''), (''id'', JNum 7),
                (''files'', JArr [JStr ''zelda.nes'', JStr ''zelda.sav''])] ''files''
     = JArr (map JStr [''zelda.nes'', ''zelda.sav''])
   \<and> map url (sent (snd (downloadRomApi (always Pending)
         (JObj [(''p_slug'', JStr ''nes''), (''id'', JNum 7),
                (''files'', JArr [JStr ''zelda.nes'', JStr ''zelda.sav''])])
         JUndefined fresh)))
     = [''/api/platforms/nes/roms/7/download?files=zelda.nes,zelda.sav'']"
  using download_files_array_joined
    [where net = "always Pending" and w = fresh and files = JUndefined
       and names = "[''zelda.nes'', ''zelda.sav'']"
       and ps = "[(''p_slug'', JStr ''nes''), (''id'', JNum 7),
                  (''files'', JArr [JStr ''zelda.nes'', JStr ''zelda.sav''])]"]
  by (simp add: eval_defs)

end
